theory Spec2Isabelle
  imports Main
begin

section \<open>Data model\<close>

text \<open>
  The entities of the document manager, with the columns the services read or write.
  Identifiers are the UUID strings of the source. Timestamps are clock readings in
  milliseconds; every operation that evaluates \<^verbatim>\<open>new Date()\<close> takes the
  reading as its argument \<open>now\<close>. The columns \<^verbatim>\<open>createdAt\<close> and
  \<^verbatim>\<open>updatedAt\<close> are maintained by the persistence layer and are not
  part of the model, nor are the descriptive columns of a document (file name, media
  type, size) that no service method below branches on.

  An entity object is a row as a query loaded it. A query with a
  \<^verbatim>\<open>select\<close> list leaves the columns it does not list undefined on the
  object; the two columns this happens to, \<^verbatim>\<open>Document.uploadedById\<close> and
  \<^verbatim>\<open>IngestionJob.documentId\<close>, are options, \<open>None\<close> for undefined. Both
  are mandatory columns, so a stored row has them set.
\<close>

text \<open>
  Modelled from the spec: the enum \<^verbatim>\<open>UserRole\<close> of
  \<^verbatim>\<open>users/entities/user.entity\<close>, which is not among the sources; the spec
  gives the roles as admin, editor, viewer.
\<close>

datatype UserRole = ADMIN | EDITOR | VIEWER

datatype DocumentStatus = UPLOADED | PROCESSING | PROCESSED | DOCUMENT_FAILED

datatype IngestionStatus = PENDING | RUNNING | COMPLETED | FAILED | CANCELLED

text \<open>
  The exceptions a service method can raise: the three HTTP exceptions, the runtime
  error of reading a property of \<^verbatim>\<open>null\<close> (a job whose document or owner
  relation is missing), and the store's error when a delete violates a foreign key.
\<close>

datatype error =
  NotFoundException | ForbiddenException | BadRequestException | TypeError | QueryFailedError

text \<open>Free-form payloads (\<^verbatim>\<open>Record<string, any>\<close>) are key/value lists.\<close>

datatype json = JString string | JNumber int | JBool bool

type_synonym payload = "(string \<times> json) list"

record User =
  user_id :: string
  role :: UserRole
  isActive :: bool

record Document =
  document_id :: string
  filePath :: string
  document_status :: DocumentStatus
  description :: "string option"
  metadata :: "payload option"
  uploadedById :: "string option"

record IngestionJob =
  job_id :: string
  status :: IngestionStatus
  errorMessage :: "string option"
  result :: "payload option"
  config :: "payload option"
  startedAt :: "nat option"
  completedAt :: "nat option"
  documentId :: "string option"

record CreateIngestionJobDto =
  dto_documentId :: string
  dto_config :: "payload option"

record UpdateIngestionJobDto =
  dto_status :: "IngestionStatus option"
  dto_errorMessage :: "string option"
  dto_result :: "payload option"

record UpdateDocumentDto =
  upd_description :: "string option"
  upd_metadata :: "payload option"
  upd_status :: "DocumentStatus option"

text \<open>
  A pending \<^verbatim>\<open>setTimeout\<close> callback of the simulated processor: the outer
  callback knows the job id only, the inner one closes over the job object that the
  outer one loaded and saved.
\<close>

datatype timer = FirstStep string | SecondStep IngestionJob

text \<open>
  The state the services act on: the documents table as the list of its rows in the
  order the store scans them, the other two tables as maps from primary key to row, the
  paths present in the upload directory, and the timers not yet fired, each with the
  time it is due.
\<close>

record state =
  document_rows :: "Document list"
  jobs :: "string \<rightharpoonup> IngestionJob"
  users :: "string \<rightharpoonup> User"
  files :: "string set"
  timers :: "(nat \<times> timer) list"

section \<open>The documents repository\<close>

fun find_document :: "string \<Rightarrow> Document list \<Rightarrow> Document option" where
  "find_document ident [] = None"
| "find_document ident (d # ds) =
     (if document_id d = ident then Some d else find_document ident ds)"

text \<open>The documents table as a map: the row with a given primary key.\<close>

definition documents :: "state \<Rightarrow> string \<rightharpoonup> Document" where
  "documents s ident = find_document ident (document_rows s)"

text \<open>
  \<^verbatim>\<open>findOne({ where: { id } })\<close> with no \<^verbatim>\<open>select\<close>: the whole row.
  When the id is undefined the condition drops out of the query and the store returns
  the first row it has.
\<close>

definition documentsRepository_findOne :: "string option \<Rightarrow> state \<Rightarrow> Document option" where
  "documentsRepository_findOne ident s =
     (case ident of
        Some i \<Rightarrow> documents s i
      | None \<Rightarrow> (case document_rows s of [] \<Rightarrow> None | d # _ \<Rightarrow> Some d))"

text \<open>\<^verbatim>\<open>save\<close> writes a row in its place, or appends a row that is new.\<close>

fun replace_document :: "Document \<Rightarrow> Document list \<Rightarrow> Document list" where
  "replace_document d [] = [d]"
| "replace_document d (x # xs) =
     (if document_id x = document_id d then d # xs else x # replace_document d xs)"

definition save_document :: "Document \<Rightarrow> state \<Rightarrow> state" where
  "save_document d s = s\<lparr>document_rows := replace_document d (document_rows s)\<rparr>"

text \<open>
  Ingestion jobs refer to their document by a foreign key, and documents to their
  owner: a row that is still referred to cannot be deleted.
\<close>

definition has_jobs :: "string \<Rightarrow> state \<Rightarrow> bool" where
  "has_jobs ident s = (\<exists>jid row. jobs s jid = Some row \<and> documentId row = Some ident)"

definition has_documents :: "string \<Rightarrow> state \<Rightarrow> bool" where
  "has_documents ident s =
     (find (\<lambda>d. uploadedById d = Some ident) (document_rows s) \<noteq> None)"

section \<open>DocumentsService\<close>

text \<open>
  \<^verbatim>\<open>findOne\<close> loads the document with a \<^verbatim>\<open>select\<close> that lists the
  owner relation but not the column \<^verbatim>\<open>uploadedById\<close>, and then tests that
  column. The relation object is read by no caller and is not part of the model.
\<close>

definition DocumentsService_findOne :: "string \<Rightarrow> User \<Rightarrow> state \<Rightarrow> error + Document" where
  "DocumentsService_findOne ident user s =
     (case documents s ident of
        None \<Rightarrow> Inl NotFoundException
      | Some row \<Rightarrow>
          let document = row\<lparr>uploadedById := None\<rparr>
          in if role user \<noteq> ADMIN \<and> uploadedById document \<noteq> Some (user_id user)
             then Inl ForbiddenException
             else Inr document)"

definition assign_document :: "Document \<Rightarrow> UpdateDocumentDto \<Rightarrow> Document" where
  "assign_document document dto =
     document\<lparr>
       description := (case upd_description dto of None \<Rightarrow> description document | Some v \<Rightarrow> Some v),
       metadata := (case upd_metadata dto of None \<Rightarrow> metadata document | Some v \<Rightarrow> Some v),
       document_status := (case upd_status dto of None \<Rightarrow> document_status document | Some v \<Rightarrow> v)\<rparr>"

definition DocumentsService_update ::
  "string \<Rightarrow> UpdateDocumentDto \<Rightarrow> User \<Rightarrow> state \<Rightarrow> (error + Document) \<times> state" where
  "DocumentsService_update ident dto user s =
     (case documents s ident of
        None \<Rightarrow> (Inl NotFoundException, s)
      | Some document \<Rightarrow>
          if role user \<noteq> ADMIN \<and> uploadedById document \<noteq> Some (user_id user)
          then (Inl ForbiddenException, s)
          else if upd_status dto \<noteq> None \<and> role user \<noteq> ADMIN
          then (Inl ForbiddenException, s)
          else
            let document' = assign_document document dto
            in (Inr document', save_document document' s))"

text \<open>
  \<^verbatim>\<open>remove\<close> unlinks the file before it deletes the row; the delete fails when
  a job still refers to the document.
\<close>

definition DocumentsService_remove :: "string \<Rightarrow> User \<Rightarrow> state \<Rightarrow> (error + unit) \<times> state" where
  "DocumentsService_remove ident user s =
     (case documents s ident of
        None \<Rightarrow> (Inl NotFoundException, s)
      | Some document \<Rightarrow>
          if role user \<noteq> ADMIN \<and> uploadedById document \<noteq> Some (user_id user)
          then (Inl ForbiddenException, s)
          else
            let s1 = s\<lparr>files := files s - {filePath document}\<rparr>
            in if has_jobs (document_id document) s1 then (Inl QueryFailedError, s1)
               else
                 (Inr (),
                  s1\<lparr>document_rows :=
                       filter (\<lambda>d. document_id d \<noteq> document_id document) (document_rows s1)\<rparr>))"

text \<open>
  \<^verbatim>\<open>updateStatus\<close> is declared with a string id; the ingestion service also
  calls it with the undefined \<^verbatim>\<open>documentId\<close> of a job it loaded with a
  \<^verbatim>\<open>select\<close>, so the id is an option here.
\<close>

definition DocumentsService_updateStatus ::
  "string option \<Rightarrow> DocumentStatus \<Rightarrow> User \<Rightarrow> state \<Rightarrow> (error + Document) \<times> state" where
  "DocumentsService_updateStatus ident st user s =
     (if role user \<noteq> ADMIN then (Inl ForbiddenException, s)
      else
        (case documentsRepository_findOne ident s of
           None \<Rightarrow> (Inl NotFoundException, s)
         | Some document \<Rightarrow>
             let document' = document\<lparr>document_status := st\<rparr>
             in (Inr document', save_document document' s)))"

section \<open>IngestionService\<close>

text \<open>
  \<^verbatim>\<open>job.document.uploadedBy.id\<close>: the id of the owner, through the two relations
  that \<^verbatim>\<open>findOne\<close> joins. A relation whose row is missing is null.
\<close>

definition job_owner :: "IngestionJob \<Rightarrow> state \<Rightarrow> string option" where
  "job_owner row s =
     (case documentId row of
        None \<Rightarrow> None
      | Some d \<Rightarrow> (case documents s d of None \<Rightarrow> None | Some document \<Rightarrow> uploadedById document))"

text \<open>
  The guard \<^verbatim>\<open>user.role !== UserRole.ADMIN && job.document.uploadedBy.id !== user.id\<close>:
  the right operand is evaluated for a non-admin only, and fails on a null relation.
\<close>

definition foreign_job :: "User \<Rightarrow> string option \<Rightarrow> error + bool" where
  "foreign_job user owner =
     (if role user \<noteq> ADMIN
      then (case owner of None \<Rightarrow> Inl TypeError | Some ownerId \<Rightarrow> Inr (ownerId \<noteq> user_id user))
      else Inr False)"

text \<open>
  \<^verbatim>\<open>findOne\<close> loads the job with its relations and a \<^verbatim>\<open>select\<close> that
  lists every column but \<^verbatim>\<open>documentId\<close>.
\<close>

definition IngestionService_findOne :: "string \<Rightarrow> User \<Rightarrow> state \<Rightarrow> error + IngestionJob" where
  "IngestionService_findOne ident user s =
     (case jobs s ident of
        None \<Rightarrow> Inl NotFoundException
      | Some row \<Rightarrow>
          (case foreign_job user (job_owner row s) of
             Inl e \<Rightarrow> Inl e
           | Inr denied \<Rightarrow>
               if denied then Inl ForbiddenException else Inr (row\<lparr>documentId := None\<rparr>)))"

text \<open>
  \<^verbatim>\<open>save\<close> of a job writes the columns that are defined on the object: a job
  loaded without \<^verbatim>\<open>documentId\<close> keeps the one its row has.
\<close>

definition stored_job :: "IngestionJob \<Rightarrow> state \<Rightarrow> IngestionJob" where
  "stored_job job s =
     (case documentId job of
        Some _ \<Rightarrow> job
      | None \<Rightarrow>
          (case jobs s (job_id job) of
             None \<Rightarrow> job
           | Some row \<Rightarrow> job\<lparr>documentId := documentId row\<rparr>))"

definition save_job :: "IngestionJob \<Rightarrow> state \<Rightarrow> state" where
  "save_job job s = s\<lparr>jobs := (jobs s)(job_id job \<mapsto> stored_job job s)\<rparr>"

text \<open>\<^verbatim>\<open>Object.assign(job, dto)\<close>: every property present in the payload overwrites the job's.\<close>

definition assign_job :: "IngestionJob \<Rightarrow> UpdateIngestionJobDto \<Rightarrow> IngestionJob" where
  "assign_job job dto =
     job\<lparr>
       status := (case dto_status dto of None \<Rightarrow> status job | Some v \<Rightarrow> v),
       errorMessage := (case dto_errorMessage dto of None \<Rightarrow> errorMessage job | Some v \<Rightarrow> Some v),
       result := (case dto_result dto of None \<Rightarrow> result job | Some v \<Rightarrow> Some v)\<rparr>"

definition terminal_status :: "IngestionStatus \<Rightarrow> bool" where
  "terminal_status st = (st = COMPLETED \<or> st = FAILED \<or> st = CANCELLED)"

text \<open>
  The timestamp logic shared by the admin update and the webhook: the start time is
  written when the payload says \<open>RUNNING\<close> and none is set; the completion time when
  the payload names a terminal status and none is set (the admin update also cascades
  to the document in that branch, so it spells the branch out).
\<close>

definition stamp_started :: "UpdateIngestionJobDto \<Rightarrow> nat \<Rightarrow> IngestionJob \<Rightarrow> IngestionJob" where
  "stamp_started dto now job =
     (if dto_status dto = Some RUNNING \<and> startedAt job = None
      then job\<lparr>startedAt := Some now\<rparr> else job)"

definition enters_terminal :: "UpdateIngestionJobDto \<Rightarrow> IngestionJob \<Rightarrow> bool" where
  "enters_terminal dto job =
     (case dto_status dto of
        None \<Rightarrow> False
      | Some st \<Rightarrow> terminal_status st \<and> completedAt job = None)"

definition stamp_completed :: "UpdateIngestionJobDto \<Rightarrow> nat \<Rightarrow> IngestionJob \<Rightarrow> IngestionJob" where
  "stamp_completed dto now job =
     (if enters_terminal dto job then job\<lparr>completedAt := Some now\<rparr> else job)"

text \<open>
  \<^verbatim>\<open>simulateIngestionProcess\<close> registers the outer callback, due after 1000 ms.
\<close>

definition simulateIngestionProcess :: "string \<Rightarrow> nat \<Rightarrow> state \<Rightarrow> state" where
  "simulateIngestionProcess jobId now s =
     s\<lparr>timers := timers s @ [(now + 1000, FirstStep jobId)]\<rparr>"

text \<open>
  \<open>newId\<close> is the primary key the store generates for the new row. The test
  \<^verbatim>\<open>!document\<close> of the source cannot succeed, since
  \<^verbatim>\<open>DocumentsService.findOne\<close> raises instead of returning null.
\<close>

definition IngestionService_create ::
  "CreateIngestionJobDto \<Rightarrow> User \<Rightarrow> string \<Rightarrow> nat \<Rightarrow> state \<Rightarrow> (error + IngestionJob) \<times> state" where
  "IngestionService_create dto user newId now s =
     (case DocumentsService_findOne (dto_documentId dto) user s of
        Inl e \<Rightarrow> (Inl e, s)
      | Inr document \<Rightarrow>
          if document_status document = PROCESSING then (Inl BadRequestException, s)
          else
            let savedJob = \<lparr>job_id = newId, status = PENDING, errorMessage = None,
                              result = None,
                              config = Some (case dto_config dto of None \<Rightarrow> [] | Some c \<Rightarrow> c),
                              startedAt = None, completedAt = None,
                              documentId = Some (dto_documentId dto)\<rparr>;
                s1 = save_job savedJob s
            in (case DocumentsService_updateStatus (Some (dto_documentId dto)) PROCESSING user s1 of
                  (Inl e, s2) \<Rightarrow> (Inl e, s2)
                | (Inr _, s2) \<Rightarrow>
                    (Inr savedJob, simulateIngestionProcess (job_id savedJob) now s2)))"

text \<open>
  The admin update and the cancellation address the document by the
  \<^verbatim>\<open>documentId\<close> of the job that \<^verbatim>\<open>findOne\<close> returned.
\<close>

definition IngestionService_update ::
  "string \<Rightarrow> UpdateIngestionJobDto \<Rightarrow> User \<Rightarrow> nat \<Rightarrow> state \<Rightarrow> (error + IngestionJob) \<times> state" where
  "IngestionService_update ident dto user now s =
     (case IngestionService_findOne ident user s of
        Inl e \<Rightarrow> (Inl e, s)
      | Inr job \<Rightarrow>
          if role user \<noteq> ADMIN then (Inl ForbiddenException, s)
          else
            let job1 = stamp_started dto now (assign_job job dto)
            in if enters_terminal dto job1
               then
                 let job2 = job1\<lparr>completedAt := Some now\<rparr>;
                     documentStatus =
                       (if dto_status dto = Some COMPLETED then PROCESSED else DOCUMENT_FAILED)
                 in (case DocumentsService_updateStatus (documentId job2) documentStatus user s of
                       (Inl e, s1) \<Rightarrow> (Inl e, s1)
                     | (Inr _, s1) \<Rightarrow> (Inr job2, save_job job2 s1))
               else (Inr job1, save_job job1 s))"

text \<open>
  The second ownership test of \<^verbatim>\<open>cancel\<close> reads the relation of the job that
  \<^verbatim>\<open>findOne\<close> loaded; nothing is written in between, so it is the relation of
  the stored row.
\<close>

definition IngestionService_cancel ::
  "string \<Rightarrow> User \<Rightarrow> nat \<Rightarrow> state \<Rightarrow> (error + IngestionJob) \<times> state" where
  "IngestionService_cancel ident user now s =
     (case IngestionService_findOne ident user s of
        Inl e \<Rightarrow> (Inl e, s)
      | Inr job \<Rightarrow>
          if status job = COMPLETED \<or> status job = FAILED then (Inl BadRequestException, s)
          else
            (case foreign_job user (case jobs s ident of None \<Rightarrow> None | Some row \<Rightarrow> job_owner row s) of
               Inl e \<Rightarrow> (Inl e, s)
             | Inr denied \<Rightarrow>
                 if denied then (Inl ForbiddenException, s)
                 else
                   let updatedJob = job\<lparr>status := CANCELLED, completedAt := Some now\<rparr>;
                       s1 = save_job updatedJob s
                   in (case DocumentsService_updateStatus (documentId updatedJob) UPLOADED user s1 of
                         (Inl e, s2) \<Rightarrow> (Inl e, s2)
                       | (Inr _, s2) \<Rightarrow> (Inr updatedJob, s2))))"

definition IngestionService_remove :: "string \<Rightarrow> User \<Rightarrow> state \<Rightarrow> (error + unit) \<times> state" where
  "IngestionService_remove ident user s =
     (if role user \<noteq> ADMIN then (Inl ForbiddenException, s)
      else
        (case jobs s ident of
           None \<Rightarrow> (Inl NotFoundException, s)
         | Some _ \<Rightarrow> (Inr (), s\<lparr>jobs := (jobs s)(ident := None)\<rparr>)))"

text \<open>The webhook loads the job by id alone, with no \<^verbatim>\<open>select\<close>: the whole row.\<close>

definition handleWebhook ::
  "string \<Rightarrow> UpdateIngestionJobDto \<Rightarrow> nat \<Rightarrow> state \<Rightarrow> (error + IngestionJob) \<times> state" where
  "handleWebhook jobId updateData now s =
     (case jobs s jobId of
        None \<Rightarrow> (Inl NotFoundException, s)
      | Some job \<Rightarrow>
          let job' = stamp_completed updateData now
                       (stamp_started updateData now (assign_job job updateData))
          in (Inr job', save_job job' s))"

subsection \<open>The simulated processor\<close>

definition canned_result :: payload where
  "canned_result =
     [(''extractedText'', JString ''Sample extracted text from document...''),
      (''summary'', JString ''This is a sample summary of the document.''),
      (''language'', JString ''en''),
      (''wordCount'', JNumber 150)]"

text \<open>
  The outer callback loads the job by id (the whole row), writes \<open>RUNNING\<close> and a
  start time, saves, and registers the inner callback (due 5000 ms later) over the
  same job object.
\<close>

definition first_callback :: "string \<Rightarrow> nat \<Rightarrow> state \<Rightarrow> state" where
  "first_callback jobId now s =
     (case jobs s jobId of
        None \<Rightarrow> s
      | Some job \<Rightarrow>
          let job' = job\<lparr>status := RUNNING, startedAt := Some now\<rparr>;
              s1 = save_job job' s
          in s1\<lparr>timers := timers s1 @ [(now + 5000, SecondStep job')]\<rparr>)"

text \<open>The inner callback writes to the captured job object and saves it; it reads nothing.\<close>

definition second_callback :: "IngestionJob \<Rightarrow> nat \<Rightarrow> state \<Rightarrow> state" where
  "second_callback job now s =
     (let job' = job\<lparr>status := COMPLETED, completedAt := Some now, result := Some canned_result\<rparr>
      in save_job job' s)"

fun run_timer :: "timer \<Rightarrow> nat \<Rightarrow> state \<Rightarrow> state" where
  "run_timer (FirstStep jobId) now s = first_callback jobId now s"
| "run_timer (SecondStep job) now s = second_callback job now s"

text \<open>
  The event loop: of the pending timers, the one due earliest (the one registered first
  among equals) fires once the clock has reached its due time.
\<close>

fun next_due :: "(nat \<times> timer) list \<Rightarrow> (nat \<times> timer) option" where
  "next_due [] = None"
| "next_due (x # xs) =
     (case next_due xs of
        None \<Rightarrow> Some x
      | Some y \<Rightarrow> if fst y < fst x then Some y else Some x)"

definition fire :: "nat \<Rightarrow> state \<Rightarrow> state" where
  "fire now s =
     (case next_due (timers s) of
        None \<Rightarrow> s
      | Some (due, t) \<Rightarrow>
          if due \<le> now then run_timer t now (s\<lparr>timers := remove1 (due, t) (timers s)\<rparr>)
          else s)"

section \<open>UsersService\<close>

text \<open>A user who still owns documents cannot be deleted: the delete fails in the store.\<close>

definition UsersService_remove :: "string \<Rightarrow> User \<Rightarrow> state \<Rightarrow> (error + unit) \<times> state" where
  "UsersService_remove ident currentUser s =
     (if role currentUser \<noteq> ADMIN then (Inl ForbiddenException, s)
      else if user_id currentUser = ident then (Inl ForbiddenException, s)
      else
        (case users s ident of
           None \<Rightarrow> (Inl NotFoundException, s)
         | Some _ \<Rightarrow>
             if has_documents ident s then (Inl QueryFailedError, s)
             else (Inr (), s\<lparr>users := (users s)(ident := None)\<rparr>)))"

definition UsersService_updateRole ::
  "string \<Rightarrow> UserRole \<Rightarrow> User \<Rightarrow> state \<Rightarrow> (error + User) \<times> state" where
  "UsersService_updateRole ident r currentUser s =
     (if role currentUser \<noteq> ADMIN then (Inl ForbiddenException, s)
      else
        (case users s ident of
           None \<Rightarrow> (Inl NotFoundException, s)
         | Some user \<Rightarrow>
             let user' = user\<lparr>role := r\<rparr>
             in (Inr user', s\<lparr>users := (users s)(user_id user' \<mapsto> user')\<rparr>)))"

definition UsersService_updateUserStatus ::
  "string \<Rightarrow> User \<Rightarrow> state \<Rightarrow> (error + User) \<times> state" where
  "UsersService_updateUserStatus ident currentUser s =
     (if role currentUser \<noteq> ADMIN then (Inl ForbiddenException, s)
      else if user_id currentUser = ident then (Inl ForbiddenException, s)
      else
        (case users s ident of
           None \<Rightarrow> (Inl NotFoundException, s)
         | Some user \<Rightarrow>
             let user' = user\<lparr>isActive := \<not> isActive user\<rparr>
             in (Inr user', s\<lparr>users := (users s)(user_id user' \<mapsto> user')\<rparr>)))"

section \<open>Example data\<close>

text \<open>
  An administrator, an editor who owns one uploaded document, and a viewer who owns
  nothing; the concrete runs below start from this state.
\<close>

definition admin_user :: User where
  "admin_user = \<lparr>user_id = ''u-admin'', role = ADMIN, isActive = True\<rparr>"

definition editor_user :: User where
  "editor_user = \<lparr>user_id = ''u-editor'', role = EDITOR, isActive = True\<rparr>"

definition viewer_user :: User where
  "viewer_user = \<lparr>user_id = ''u-viewer'', role = VIEWER, isActive = True\<rparr>"

definition uploaded_document :: Document where
  "uploaded_document =
     \<lparr>document_id = ''d-1'', filePath = ''uploads/d-1.pdf'', document_status = UPLOADED,
      description = None, metadata = None, uploadedById = Some ''u-editor''\<rparr>"

definition initial_state :: state where
  "initial_state =
     \<lparr>document_rows = [uploaded_document],
      jobs = Map.empty,
      users = [''u-admin'' \<mapsto> admin_user, ''u-editor'' \<mapsto> editor_user,
               ''u-viewer'' \<mapsto> viewer_user],
      files = {''uploads/d-1.pdf''},
      timers = []\<rparr>"

definition create_dto :: CreateIngestionJobDto where
  "create_dto = \<lparr>dto_documentId = ''d-1'', dto_config = None\<rparr>"

definition running_dto :: UpdateIngestionJobDto where
  "running_dto = \<lparr>dto_status = Some RUNNING, dto_errorMessage = None, dto_result = None\<rparr>"

definition completed_dto :: UpdateIngestionJobDto where
  "completed_dto =
     \<lparr>dto_status = Some COMPLETED, dto_errorMessage = None,
      dto_result = Some [(''extractedText'', JString ''Sample text'')]\<rparr>"

text \<open>The state after the administrator has created job \<open>j-1\<close> for the document at time 0.\<close>

definition after_create :: state where
  "after_create = snd (IngestionService_create create_dto admin_user ''j-1'' 0 initial_state)"

text \<open>
  The same job left to the simulated processor (both timers fired), cancelled by the
  administrator at time 500, and reported \<open>RUNNING\<close> by the webhook at time 400.
\<close>

definition after_simulation :: state where
  "after_simulation = fire 6000 (fire 1000 after_create)"

definition after_cancel :: state where
  "after_cancel = snd (IngestionService_cancel ''j-1'' admin_user 500 after_create)"

definition after_webhook_running :: state where
  "after_webhook_running = snd (handleWebhook ''j-1'' running_dto 400 after_create)"

text \<open>
  A second state, with an older document of the viewer's stored before the editor's,
  and a pending job of the editor's document.
\<close>

definition older_document :: Document where
  "older_document =
     \<lparr>document_id = ''d-0'', filePath = ''uploads/d-0.pdf'', document_status = PROCESSED,
      description = None, metadata = None, uploadedById = Some ''u-viewer''\<rparr>"

definition two_documents :: state where
  "two_documents =
     \<lparr>document_rows = [older_document, uploaded_document\<lparr>document_status := PROCESSING\<rparr>],
      jobs = [''j-1'' \<mapsto> \<lparr>job_id = ''j-1'', status = PENDING, errorMessage = None,
                          result = None, config = Some [], startedAt = None,
                          completedAt = None, documentId = Some ''d-1''\<rparr>],
      users = [''u-admin'' \<mapsto> admin_user, ''u-editor'' \<mapsto> editor_user,
               ''u-viewer'' \<mapsto> viewer_user],
      files = {''uploads/d-0.pdf'', ''uploads/d-1.pdf''},
      timers = [(1000, FirstStep ''j-1'')]\<rparr>"

section \<open>Basic facts\<close>

lemmas example_defs = admin_user_def editor_user_def viewer_user_def uploaded_document_def
  initial_state_def create_dto_def running_dto_def completed_dto_def

subsection \<open>The stores\<close>

lemma find_document_id: "find_document ident rows = Some d \<Longrightarrow> document_id d = ident"
  by (induction rows) (auto split: if_splits)

lemma documents_id: "documents s ident = Some d \<Longrightarrow> document_id d = ident"
  by (simp add: documents_def find_document_id)

lemma documents_frame [simp]:
  "documents (s\<lparr>jobs := j\<rparr>) = documents s"
  "documents (s\<lparr>users := u\<rparr>) = documents s"
  "documents (s\<lparr>files := f\<rparr>) = documents s"
  "documents (s\<lparr>timers := t\<rparr>) = documents s"
  by (simp_all add: documents_def fun_eq_iff)

lemma find_document_replace:
  "find_document ident (replace_document d rows) =
     (if ident = document_id d then Some d else find_document ident rows)"
  by (induction rows) auto

lemma documents_save_document [simp]:
  "documents (save_document d s) = (documents s)(document_id d \<mapsto> d)"
  by (rule ext) (simp add: documents_def save_document_def find_document_replace)

lemma save_document_frame [simp]:
  "jobs (save_document d s) = jobs s"
  "users (save_document d s) = users s"
  "files (save_document d s) = files s"
  "timers (save_document d s) = timers s"
  by (simp_all add: save_document_def)

lemma stored_job_fixed [simp]:
  "job_id (stored_job job s) = job_id job"
  "status (stored_job job s) = status job"
  "errorMessage (stored_job job s) = errorMessage job"
  "result (stored_job job s) = result job"
  "config (stored_job job s) = config job"
  "startedAt (stored_job job s) = startedAt job"
  "completedAt (stored_job job s) = completedAt job"
  by (simp_all add: stored_job_def split: option.splits)

lemma stored_job_defined [simp]: "documentId job = Some d \<Longrightarrow> stored_job job s = job"
  by (simp add: stored_job_def)

lemma stored_job_same:
  assumes "jobs s (job_id job) = Some row" and "documentId row = documentId job"
  shows "stored_job job s = job"
proof (cases "documentId job")
  case None
  then have "job\<lparr>documentId := None\<rparr> = job" by (cases job) simp
  with None assms show ?thesis by (simp add: stored_job_def)
next
  case (Some d)
  then show ?thesis by simp
qed

lemma stored_job_projected:
  assumes "jobs s (job_id row) = Some row"
  shows "stored_job (row\<lparr>documentId := None, status := st, completedAt := c\<rparr>) s
           = row\<lparr>status := st, completedAt := c\<rparr>"
  using assms by (cases row) (simp add: stored_job_def)

lemma jobs_save_job [simp]:
  "jobs (save_job job s) = (jobs s)(job_id job \<mapsto> stored_job job s)"
  by (simp add: save_job_def)

lemma save_job_frame [simp]:
  "document_rows (save_job job s) = document_rows s"
  "documents (save_job job s) = documents s"
  "users (save_job job s) = users s"
  "files (save_job job s) = files s"
  "timers (save_job job s) = timers s"
  by (simp_all add: save_job_def documents_def fun_eq_iff)

subsection \<open>The field merge and the timestamps\<close>

lemma assign_job_fixed [simp]:
  "job_id (assign_job J dto) = job_id J"
  "documentId (assign_job J dto) = documentId J"
  "config (assign_job J dto) = config J"
  "startedAt (assign_job J dto) = startedAt J"
  "completedAt (assign_job J dto) = completedAt J"
  by (simp_all add: assign_job_def)

lemma assign_job_status [simp]:
  "status (assign_job J dto) = (case dto_status dto of None \<Rightarrow> status J | Some st \<Rightarrow> st)"
  by (simp add: assign_job_def)

lemma stamp_started_fixed [simp]:
  "job_id (stamp_started dto now J) = job_id J"
  "documentId (stamp_started dto now J) = documentId J"
  "config (stamp_started dto now J) = config J"
  "status (stamp_started dto now J) = status J"
  "completedAt (stamp_started dto now J) = completedAt J"
  by (simp_all add: stamp_started_def)

lemma stamp_started_startedAt:
  "startedAt (stamp_started dto now J) =
     (if dto_status dto = Some RUNNING \<and> startedAt J = None then Some now else startedAt J)"
  by (simp add: stamp_started_def)

lemma stamp_started_keeps [simp]:
  "startedAt J = Some t \<Longrightarrow> startedAt (stamp_started dto now J) = Some t"
  by (simp add: stamp_started_def)

lemma stamp_completed_fixed [simp]:
  "job_id (stamp_completed dto now J) = job_id J"
  "documentId (stamp_completed dto now J) = documentId J"
  "config (stamp_completed dto now J) = config J"
  "status (stamp_completed dto now J) = status J"
  "startedAt (stamp_completed dto now J) = startedAt J"
  by (simp_all add: stamp_completed_def)

lemma stamp_completed_keeps [simp]:
  "completedAt J = Some t \<Longrightarrow> completedAt (stamp_completed dto now J) = Some t"
  by (simp add: stamp_completed_def enters_terminal_def split: option.splits)

subsection \<open>Status updates of a document\<close>

lemma updateStatus_not_admin:
  "role user \<noteq> ADMIN \<Longrightarrow>
     DocumentsService_updateStatus ident st user s = (Inl ForbiddenException, s)"
  by (simp add: DocumentsService_updateStatus_def)

lemma updateStatus_by_id:
  assumes "role user = ADMIN" and "documents s ident = Some D"
  shows "DocumentsService_updateStatus (Some ident) st user s =
           (Inr (D\<lparr>document_status := st\<rparr>), save_document (D\<lparr>document_status := st\<rparr>) s)"
  using assms
  by (simp add: DocumentsService_updateStatus_def documentsRepository_findOne_def Let_def)

lemma updateStatus_undefined_id:
  assumes "role user = ADMIN" and "document_rows s = D # rest"
  shows "DocumentsService_updateStatus None st user s =
           (Inr (D\<lparr>document_status := st\<rparr>),
            s\<lparr>document_rows := D\<lparr>document_status := st\<rparr> # rest\<rparr>)"
  using assms
  by (simp add: DocumentsService_updateStatus_def documentsRepository_findOne_def
      save_document_def Let_def)

lemma updateStatus_jobs [simp]:
  "jobs (snd (DocumentsService_updateStatus ident st user s)) = jobs s"
  by (simp add: DocumentsService_updateStatus_def Let_def split: option.splits)

lemma updateStatus_failure:
  "isl (fst (DocumentsService_updateStatus ident st user s)) \<Longrightarrow>
     snd (DocumentsService_updateStatus ident st user s) = s"
  by (simp add: DocumentsService_updateStatus_def Let_def split: option.splits if_splits)

subsection \<open>The example run\<close>

lemma initial_documents:
  "documents initial_state ''d-1'' = Some uploaded_document"
  by (simp add: documents_def initial_state_def uploaded_document_def)

lemma after_create_rows:
  "document_rows after_create = [uploaded_document\<lparr>document_status := PROCESSING\<rparr>]"
  by (simp add: after_create_def IngestionService_create_def DocumentsService_findOne_def
      DocumentsService_updateStatus_def documentsRepository_findOne_def documents_def
      save_document_def simulateIngestionProcess_def Let_def example_defs)

lemma after_create_documents:
  "documents after_create ''d-1'' = Some (uploaded_document\<lparr>document_status := PROCESSING\<rparr>)"
  by (simp add: documents_def after_create_rows uploaded_document_def)

lemma after_create_jobs:
  "jobs after_create =
     [''j-1'' \<mapsto> \<lparr>job_id = ''j-1'', status = PENDING, errorMessage = None, result = None,
                  config = Some [], startedAt = None, completedAt = None,
                  documentId = Some ''d-1''\<rparr>]"
  by (simp add: after_create_def IngestionService_create_def DocumentsService_findOne_def
      DocumentsService_updateStatus_def documentsRepository_findOne_def documents_def
      save_document_def simulateIngestionProcess_def Let_def example_defs)

lemma after_create_timers: "timers after_create = [(1000, FirstStep ''j-1'')]"
  by (simp add: after_create_def IngestionService_create_def DocumentsService_findOne_def
      DocumentsService_updateStatus_def documentsRepository_findOne_def documents_def
      save_document_def simulateIngestionProcess_def Let_def example_defs)

section \<open>Reading a document\<close>

lemma findOne_document_admin:
  assumes "documents s ident = Some D" and "role A = ADMIN"
  shows "DocumentsService_findOne ident A s = Inr (D\<lparr>uploadedById := None\<rparr>)"
  using assms by (simp add: DocumentsService_findOne_def)

lemma findOne_document_not_admin:
  assumes "documents s ident = Some D" and "role A \<noteq> ADMIN"
  shows "DocumentsService_findOne ident A s = Inl ForbiddenException"
  using assms by (simp add: DocumentsService_findOne_def)

lemma findOne_job_admin_or_owner:
  assumes "jobs s jid = Some J" and "job_owner J s = Some ownerId"
  shows "IngestionService_findOne jid A s =
           (if role A = ADMIN \<or> user_id A = ownerId then Inr (J\<lparr>documentId := None\<rparr>)
            else Inl ForbiddenException)"
  using assms by (auto simp add: IngestionService_findOne_def foreign_job_def)

text \<open>
  Claim C8: for a stored document, \<^verbatim>\<open>DocumentsService.findOne\<close> succeeds exactly
  when the actor is an administrator or the document's owner and raises
  \<open>ForbiddenException\<close> otherwise; reading a single ingestion job follows the same
  rule through the owner of the job's document. The job half holds
  (\<open>findOne_job_admin_or_owner\<close>). The document half does not: the query's
  \<^verbatim>\<open>select\<close> leaves \<^verbatim>\<open>uploadedById\<close> undefined on the object that the
  ownership test then reads, so every non-admin is refused
  (\<open>findOne_document_not_admin\<close>), the owner included: the editor cannot read the
  document \<open>d-1\<close> that the editor owns.
\<close>

theorem findOne_refuses_owner:
  "map_option uploadedById (documents initial_state ''d-1'') = Some (Some (user_id editor_user))
   \<and> DocumentsService_findOne ''d-1'' editor_user initial_state = Inl ForbiddenException"
  using findOne_document_not_admin [of initial_state "''d-1''" uploaded_document editor_user]
  by (simp add: initial_documents uploaded_document_def editor_user_def)

section \<open>Creating a job\<close>

lemma create_as_admin:
  assumes "documents s (dto_documentId dto) = Some D"
    and "role A = ADMIN"
    and "document_status D \<noteq> PROCESSING"
  shows "\<exists>J s'. IngestionService_create dto A newId now s = (Inr J, s')
           \<and> jobs s' newId = Some J \<and> status J = PENDING \<and> startedAt J = None
           \<and> map_option document_status (documents s' (dto_documentId dto)) = Some PROCESSING"
proof -
  let ?J = "\<lparr>job_id = newId, status = PENDING, errorMessage = None, result = None,
             config = Some (case dto_config dto of None \<Rightarrow> [] | Some c \<Rightarrow> c),
             startedAt = None, completedAt = None,
             documentId = Some (dto_documentId dto)\<rparr>"
  have d: "documents (save_job ?J s) (dto_documentId dto) = Some D"
    using assms(1) by simp
  have "IngestionService_create dto A newId now s =
          (Inr ?J, simulateIngestionProcess newId now
                     (save_document (D\<lparr>document_status := PROCESSING\<rparr>) (save_job ?J s)))"
    using assms updateStatus_by_id [OF assms(2) d, of PROCESSING]
    by (simp add: IngestionService_create_def findOne_document_admin Let_def)
  moreover have "document_id D = dto_documentId dto"
    using assms(1) by (rule documents_id)
  ultimately show ?thesis
    by (simp add: simulateIngestionProcess_def)
qed

lemma create_as_non_admin:
  assumes "documents s (dto_documentId dto) = Some D" and "role A \<noteq> ADMIN"
  shows "IngestionService_create dto A newId now s = (Inl ForbiddenException, s)"
  using assms by (simp add: IngestionService_create_def findOne_document_not_admin)

text \<open>
  Claim C1: every actor permitted to view a document that is not \<open>PROCESSING\<close> can
  create an ingestion job for it, leaving the job \<open>PENDING\<close> and the document
  \<open>PROCESSING\<close>, whether the actor is an administrator or not. The code does so for
  an administrator only (\<open>create_as_admin\<close>). Every other actor is refused when the
  document is fetched (\<open>create_as_non_admin\<close>), the owner included, since
  \<^verbatim>\<open>DocumentsService.findOne\<close> tests a column its query did not load: for the
  editor who owns the uploaded document \<open>d-1\<close> the call raises
  \<open>ForbiddenException\<close> and writes nothing.
\<close>

theorem create_by_owning_editor:
  "map_option uploadedById (documents initial_state ''d-1'') = Some (Some (user_id editor_user))
   \<and> map_option document_status (documents initial_state ''d-1'') = Some UPLOADED
   \<and> IngestionService_create create_dto editor_user ''j-1'' 0 initial_state
       = (Inl ForbiddenException, initial_state)"
  using create_as_non_admin [of initial_state create_dto uploaded_document editor_user "''j-1''" 0]
  by (simp add: initial_documents uploaded_document_def editor_user_def create_dto_def)

section \<open>Cancelling a job\<close>

lemma findOne_job_permitted:
  assumes "jobs s jid = Some J"
    and "role A = ADMIN \<or> job_owner J s = Some (user_id A)"
  shows "IngestionService_findOne jid A s = Inr (J\<lparr>documentId := None\<rparr>)"
    and "foreign_job A (job_owner J s) = Inr False"
  using assms by (auto simp add: IngestionService_findOne_def foreign_job_def)

lemma cancel_finished_rejected:
  assumes "jobs s jid = Some J"
    and "role A = ADMIN \<or> job_owner J s = Some (user_id A)"
    and "status J = COMPLETED \<or> status J = FAILED"
  shows "IngestionService_cancel jid A now s = (Inl BadRequestException, s)"
  using assms(3) findOne_job_permitted [OF assms(1,2)]
  by (auto simp add: IngestionService_cancel_def)

text \<open>
  An administrator's cancel writes the job and then reverts a document: the one the
  store returns for an undefined id, the first row of the table.
\<close>

lemma cancel_as_admin:
  assumes "jobs s jid = Some J" and "job_id J = jid"
    and "role A = ADMIN"
    and "status J = PENDING \<or> status J = RUNNING \<or> status J = CANCELLED"
    and "document_rows s = D # rest"
  shows "IngestionService_cancel jid A now s =
           (Inr (J\<lparr>documentId := None, status := CANCELLED, completedAt := Some now\<rparr>),
            s\<lparr>jobs := (jobs s)(jid \<mapsto> J\<lparr>status := CANCELLED, completedAt := Some now\<rparr>),
              document_rows := D\<lparr>document_status := UPLOADED\<rparr> # rest\<rparr>)"
proof -
  let ?job = "J\<lparr>documentId := None, status := CANCELLED, completedAt := Some now\<rparr>"
  have f: "IngestionService_findOne jid A s = Inr (J\<lparr>documentId := None\<rparr>)"
    and g: "foreign_job A (job_owner J s) = Inr False"
    using findOne_job_permitted [OF assms(1)] assms(3) by simp_all
  have n: "\<not> (status J = COMPLETED \<or> status J = FAILED)"
    using assms(4) by auto
  have st: "stored_job ?job s = J\<lparr>status := CANCELLED, completedAt := Some now\<rparr>"
    using assms(1,2) by (simp add: stored_job_projected)
  have "document_rows (save_job ?job s) = D # rest"
    using assms(5) by simp
  then have u: "DocumentsService_updateStatus None UPLOADED A (save_job ?job s) =
      (Inr (D\<lparr>document_status := UPLOADED\<rparr>),
       save_job ?job s\<lparr>document_rows := D\<lparr>document_status := UPLOADED\<rparr> # rest\<rparr>)"
    using assms(3) by (rule updateStatus_undefined_id [rotated])
  have "IngestionService_cancel jid A now s =
          (Inr ?job, save_job ?job s\<lparr>document_rows := D\<lparr>document_status := UPLOADED\<rparr> # rest\<rparr>)"
    using f g n u assms(1) by (simp add: IngestionService_cancel_def Let_def)
  then show ?thesis
    using st assms(2) by (simp add: save_job_def)
qed

lemma cancel_as_owner_not_admin:
  assumes "jobs s jid = Some J" and "job_id J = jid"
    and "role A \<noteq> ADMIN" and "job_owner J s = Some (user_id A)"
    and "status J = PENDING \<or> status J = RUNNING \<or> status J = CANCELLED"
  shows "IngestionService_cancel jid A now s =
           (Inl ForbiddenException,
            s\<lparr>jobs := (jobs s)(jid \<mapsto> J\<lparr>status := CANCELLED, completedAt := Some now\<rparr>)\<rparr>)"
proof -
  let ?job = "J\<lparr>documentId := None, status := CANCELLED, completedAt := Some now\<rparr>"
  have f: "IngestionService_findOne jid A s = Inr (J\<lparr>documentId := None\<rparr>)"
    and g: "foreign_job A (job_owner J s) = Inr False"
    using findOne_job_permitted [OF assms(1)] assms(4) by simp_all
  have n: "\<not> (status J = COMPLETED \<or> status J = FAILED)"
    using assms(5) by auto
  have st: "stored_job ?job s = J\<lparr>status := CANCELLED, completedAt := Some now\<rparr>"
    using assms(1,2) by (simp add: stored_job_projected)
  have "IngestionService_cancel jid A now s = (Inl ForbiddenException, save_job ?job s)"
    using f g n assms(1,3)
    by (simp add: IngestionService_cancel_def updateStatus_not_admin Let_def)
  then show ?thesis
    using st assms(2) by (simp add: save_job_def)
qed

lemma two_documents_rows:
  "document_rows two_documents
     = [older_document, uploaded_document\<lparr>document_status := PROCESSING\<rparr>]"
  by (simp add: two_documents_def)

lemma two_documents_jobs:
  "jobs two_documents ''j-1'' =
     Some \<lparr>job_id = ''j-1'', status = PENDING, errorMessage = None, result = None,
           config = Some [], startedAt = None, completedAt = None,
           documentId = Some ''d-1''\<rparr>"
  by (simp add: two_documents_def)

lemma cancel_reverts_first_document:
  "map_option document_status
     (documents (snd (IngestionService_cancel ''j-1'' admin_user 500 two_documents)) ''d-0'')
     = Some UPLOADED
   \<and> map_option document_status
        (documents (snd (IngestionService_cancel ''j-1'' admin_user 500 two_documents)) ''d-1'')
     = Some PROCESSING"
  using cancel_as_admin [OF two_documents_jobs _ _ _ two_documents_rows, of admin_user 500]
  by (simp add: documents_def admin_user_def older_document_def uploaded_document_def)

text \<open>
  Claim C2: for an administrator or the owner of the job's document, cancelling a
  \<open>COMPLETED\<close> or \<open>FAILED\<close> job raises \<open>BadRequestException\<close>, and cancelling a
  \<open>PENDING\<close> or \<open>RUNNING\<close> job sets it to \<open>CANCELLED\<close>, stamps \<open>completedAt\<close> and
  reverts the document to \<open>UPLOADED\<close>, for the owner as for an administrator. The
  rejection holds for both (\<open>cancel_finished_rejected\<close>). For the editor who owns
  document \<open>d-1\<close>, with its job \<open>j-1\<close> pending, the call saves the cancelled job and
  then raises \<open>ForbiddenException\<close> out of the admin-only status update: the document
  stays \<open>PROCESSING\<close>. (An administrator's cancel succeeds, and reverts the first
  stored document, \<open>cancel_as_admin\<close>: the job's own only when that is the first.)
\<close>

theorem cancel_by_owning_editor:
  "fst (IngestionService_cancel ''j-1'' editor_user 500 after_create) = Inl ForbiddenException
   \<and> map_option status
        (jobs (snd (IngestionService_cancel ''j-1'' editor_user 500 after_create)) ''j-1'')
     = Some CANCELLED
   \<and> map_option completedAt
        (jobs (snd (IngestionService_cancel ''j-1'' editor_user 500 after_create)) ''j-1'')
     = Some (Some 500)
   \<and> map_option document_status
        (documents (snd (IngestionService_cancel ''j-1'' editor_user 500 after_create)) ''d-1'')
     = Some PROCESSING"
proof -
  let ?J = "\<lparr>job_id = ''j-1'', status = PENDING, errorMessage = None, result = None,
             config = Some [], startedAt = None, completedAt = None,
             documentId = Some ''d-1''\<rparr>"
  have j: "jobs after_create ''j-1'' = Some ?J"
    by (simp add: after_create_jobs)
  have o: "job_owner ?J after_create = Some (user_id editor_user)"
    by (simp add: job_owner_def after_create_documents uploaded_document_def editor_user_def)
  have "IngestionService_cancel ''j-1'' editor_user 500 after_create =
          (Inl ForbiddenException,
           after_create\<lparr>jobs := (jobs after_create)
             (''j-1'' \<mapsto> ?J\<lparr>status := CANCELLED, completedAt := Some 500\<rparr>)\<rparr>)"
    using cancel_as_owner_not_admin [OF j _ _ o, of 500]
    by (simp add: editor_user_def)
  then show ?thesis
    by (simp add: after_create_documents uploaded_document_def)
qed

section \<open>The simulated processor\<close>

lemma first_callback_documents: "documents (first_callback jid now s) = documents s"
  by (simp add: first_callback_def Let_def split: option.splits)

lemma second_callback_documents: "documents (second_callback job now s) = documents s"
  by (simp add: second_callback_def Let_def)

lemma fire_documents: "documents (fire now s) = documents s"
proof (cases "next_due (timers s)")
  case None
  then show ?thesis by (simp add: fire_def)
next
  case (Some p)
  obtain due t where p: "p = (due, t)" by (cases p)
  show ?thesis
    using Some p
    by (cases t) (simp_all add: fire_def first_callback_documents second_callback_documents)
qed

lemma first_callback_running:
  assumes "jobs s jid = Some J" and "job_id J = jid"
  shows "jobs (first_callback jid now s) jid
           = Some (J\<lparr>status := RUNNING, startedAt := Some now\<rparr>)"
    and "timers (first_callback jid now s)
           = timers s @ [(now + 5000, SecondStep (J\<lparr>status := RUNNING, startedAt := Some now\<rparr>))]"
proof -
  have "stored_job (J\<lparr>status := RUNNING, startedAt := Some now\<rparr>) s
          = J\<lparr>status := RUNNING, startedAt := Some now\<rparr>"
    using assms by (intro stored_job_same [where row = J]) simp_all
  then show "jobs (first_callback jid now s) jid
           = Some (J\<lparr>status := RUNNING, startedAt := Some now\<rparr>)"
    using assms by (simp add: first_callback_def Let_def)
  show "timers (first_callback jid now s)
           = timers s @ [(now + 5000, SecondStep (J\<lparr>status := RUNNING, startedAt := Some now\<rparr>))]"
    using assms by (simp add: first_callback_def Let_def)
qed

lemma second_callback_completed:
  assumes "documentId J = Some d"
  shows "jobs (second_callback J now s) (job_id J) =
     Some (J\<lparr>status := COMPLETED, completedAt := Some now, result := Some canned_result\<rparr>)"
  using assms by (simp add: second_callback_def Let_def)

subsection \<open>The undisturbed run\<close>

lemma fire_1000_jobs:
  "jobs (fire 1000 after_create) =
     [''j-1'' \<mapsto> \<lparr>job_id = ''j-1'', status = RUNNING, errorMessage = None, result = None,
                  config = Some [], startedAt = Some 1000, completedAt = None,
                  documentId = Some ''d-1''\<rparr>]"
  by (simp add: fire_def first_callback_def after_create_jobs after_create_timers Let_def)

lemma fire_1000_timers:
  "timers (fire 1000 after_create) =
     [(6000, SecondStep \<lparr>job_id = ''j-1'', status = RUNNING, errorMessage = None,
                         result = None, config = Some [], startedAt = Some 1000,
                         completedAt = None, documentId = Some ''d-1''\<rparr>)]"
  by (simp add: fire_def first_callback_def after_create_jobs after_create_timers Let_def)

lemma after_simulation_jobs:
  "jobs after_simulation =
     [''j-1'' \<mapsto> \<lparr>job_id = ''j-1'', status = COMPLETED, errorMessage = None,
                  result = Some canned_result, config = Some [], startedAt = Some 1000,
                  completedAt = Some 6000, documentId = Some ''d-1''\<rparr>]"
  by (simp add: after_simulation_def fire_def [of 6000] second_callback_def fire_1000_jobs
      fire_1000_timers Let_def)

lemma after_simulation_documents:
  "documents after_simulation ''d-1''
     = Some (uploaded_document\<lparr>document_status := PROCESSING\<rparr>)"
  by (simp add: after_simulation_def fire_documents after_create_documents)

text \<open>
  Claim C3: a job created by the engine and left alone is advanced by the two delayed
  steps to \<open>RUNNING\<close> and then to \<open>COMPLETED\<close> with the canned result, and on the
  completed transition the owning document becomes \<open>PROCESSED\<close>. The job part holds;
  the document part does not: neither callback writes to a document
  (\<open>fire_documents\<close>), so after the run that the administrator started for \<open>d-1\<close>
  the job is \<open>COMPLETED\<close> and the document is still \<open>PROCESSING\<close>.
\<close>

theorem simulated_run_leaves_document_processing:
  "map_option status (jobs (fire 1000 after_create) ''j-1'') = Some RUNNING
   \<and> map_option status (jobs after_simulation ''j-1'') = Some COMPLETED
   \<and> map_option result (jobs after_simulation ''j-1'') = Some (Some canned_result)
   \<and> map_option document_status (documents after_simulation ''d-1'') = Some PROCESSING"
  by (simp add: after_simulation_jobs fire_1000_jobs after_simulation_documents
      uploaded_document_def)

subsection \<open>A run that races a cancellation\<close>

lemma after_cancel_state:
  "after_cancel =
     after_create
       \<lparr>jobs := (jobs after_create)
          (''j-1'' \<mapsto> \<lparr>job_id = ''j-1'', status = CANCELLED, errorMessage = None,
                        result = None, config = Some [], startedAt = None,
                        completedAt = Some 500, documentId = Some ''d-1''\<rparr>),
        document_rows := [uploaded_document]\<rparr>"
proof -
  let ?J = "\<lparr>job_id = ''j-1'', status = PENDING, errorMessage = None, result = None,
             config = Some [], startedAt = None, completedAt = None,
             documentId = Some ''d-1''\<rparr>"
  have j: "jobs after_create ''j-1'' = Some ?J"
    by (simp add: after_create_jobs)
  show ?thesis
    using cancel_as_admin [OF j _ _ _ after_create_rows, of admin_user 500]
    by (simp add: after_cancel_def admin_user_def uploaded_document_def)
qed

lemma after_cancel_jobs:
  "jobs after_cancel =
     [''j-1'' \<mapsto> \<lparr>job_id = ''j-1'', status = CANCELLED, errorMessage = None, result = None,
                  config = Some [], startedAt = None, completedAt = Some 500,
                  documentId = Some ''d-1''\<rparr>]"
  by (simp add: after_cancel_state after_create_jobs)

lemma after_cancel_timers: "timers after_cancel = [(1000, FirstStep ''j-1'')]"
  by (simp add: after_cancel_state after_create_timers)

lemma after_cancel_fire_1000_jobs:
  "jobs (fire 1000 after_cancel) =
     [''j-1'' \<mapsto> \<lparr>job_id = ''j-1'', status = RUNNING, errorMessage = None, result = None,
                  config = Some [], startedAt = Some 1000, completedAt = Some 500,
                  documentId = Some ''d-1''\<rparr>]"
  by (simp add: fire_def first_callback_def after_cancel_jobs after_cancel_timers Let_def)

lemma after_cancel_fire_1000_timers:
  "timers (fire 1000 after_cancel) =
     [(6000, SecondStep \<lparr>job_id = ''j-1'', status = RUNNING, errorMessage = None,
                         result = None, config = Some [], startedAt = Some 1000,
                         completedAt = Some 500, documentId = Some ''d-1''\<rparr>)]"
  by (simp add: fire_def first_callback_def after_cancel_jobs after_cancel_timers Let_def)

text \<open>
  Claim C5: a simulated step re-checks the job's status before each forced write and
  does nothing to a job that is already terminal, so a cancelled job is never moved to
  \<open>RUNNING\<close> or \<open>COMPLETED\<close>. The outer callback tests only that the job exists and
  the inner one reads nothing: job \<open>j-1\<close>, cancelled by the administrator at time 500,
  is \<open>RUNNING\<close> after the first timer and \<open>COMPLETED\<close> after the second.
\<close>

theorem cancelled_job_resurrected:
  "map_option status (jobs after_cancel ''j-1'') = Some CANCELLED
   \<and> map_option status (jobs (fire 1000 after_cancel) ''j-1'') = Some RUNNING
   \<and> map_option status (jobs (fire 6000 (fire 1000 after_cancel)) ''j-1'') = Some COMPLETED"
  by (simp add: after_cancel_jobs after_cancel_fire_1000_jobs fire_def [of 6000]
      after_cancel_fire_1000_timers second_callback_def Let_def)

subsection \<open>The start time\<close>

lemma webhook_existing:
  assumes "jobs s jid = Some J" and "job_id J = jid"
  shows "handleWebhook jid dto now s =
           (Inr (stamp_completed dto now (stamp_started dto now (assign_job J dto))),
            s\<lparr>jobs := (jobs s)(jid \<mapsto>
                 stamp_completed dto now (stamp_started dto now (assign_job J dto)))\<rparr>)"
proof -
  have "stored_job (stamp_completed dto now (stamp_started dto now (assign_job J dto))) s
          = stamp_completed dto now (stamp_started dto now (assign_job J dto))"
    using assms by (intro stored_job_same [where row = J]) simp_all
  then show ?thesis
    using assms by (simp add: handleWebhook_def save_job_def Let_def)
qed

lemma webhook_keeps_startedAt:
  assumes "jobs s jid = Some J" and "job_id J = jid" and "startedAt J = Some t"
  shows "map_option startedAt (jobs (snd (handleWebhook jid dto now s)) jid) = Some (Some t)"
  using assms(3) by (simp add: webhook_existing [OF assms(1,2)])

text \<open>
  What an admin update comes to for a stored job: it raises and writes nothing, or it
  saves the merged job, after at most a write to a document.
\<close>

lemma update_outcome:
  assumes "jobs s jid = Some J"
  shows "(isl (fst (IngestionService_update jid dto A now s))
            \<and> snd (IngestionService_update jid dto A now s) = s)
       \<or> (\<exists>job s1. IngestionService_update jid dto A now s = (Inr job, save_job job s1)
            \<and> jobs s1 = jobs s
            \<and> job_id job = job_id J
            \<and> status job = (case dto_status dto of None \<Rightarrow> status J | Some st \<Rightarrow> st)
            \<and> startedAt job = startedAt (stamp_started dto now (assign_job J dto)))"
proof (cases "IngestionService_findOne jid A s")
  case (Inl e)
  then show ?thesis by (simp add: IngestionService_update_def)
next
  case (Inr job)
  then have job: "job = J\<lparr>documentId := None\<rparr>"
    using assms
    by (auto simp add: IngestionService_findOne_def split: sum.splits if_splits)
  let ?j1 = "stamp_started dto now (assign_job job dto)"
  have j1: "job_id ?j1 = job_id J"
    "status ?j1 = (case dto_status dto of None \<Rightarrow> status J | Some st \<Rightarrow> st)"
    "startedAt ?j1 = startedAt (stamp_started dto now (assign_job J dto))"
    using job by (simp_all add: stamp_started_startedAt split: option.splits)
  show ?thesis
  proof (cases "role A = ADMIN")
    case False
    then show ?thesis using Inr by (simp add: IngestionService_update_def)
  next
    case True
    show ?thesis
    proof (cases "enters_terminal dto ?j1")
      case False
      then have "IngestionService_update jid dto A now s = (Inr ?j1, save_job ?j1 s)"
        using Inr True by (simp add: IngestionService_update_def Let_def)
      then show ?thesis using j1 by blast
    next
      case et: True
      let ?j2 = "?j1\<lparr>completedAt := Some now\<rparr>"
      let ?P = "DocumentsService_updateStatus (documentId ?j2)
                  (if dto_status dto = Some COMPLETED then PROCESSED else DOCUMENT_FAILED) A s"
      have u: "IngestionService_update jid dto A now s =
                 (if isl (fst ?P) then (Inl (projl (fst ?P)), snd ?P)
                  else (Inr ?j2, save_job ?j2 (snd ?P)))"
        using Inr True et
        by (simp add: IngestionService_update_def Let_def split_beta sum.case_eq_if
            del: stamp_started_fixed assign_job_fixed)
      show ?thesis
      proof (cases "isl (fst ?P)")
        case True
        then have "snd ?P = s" by (rule updateStatus_failure)
        then show ?thesis using u True by simp
      next
        case False
        have "jobs (snd ?P) = jobs s" by (rule updateStatus_jobs)
        moreover have "IngestionService_update jid dto A now s = (Inr ?j2, save_job ?j2 (snd ?P))"
          using u False by simp
        moreover have "job_id ?j2 = job_id J"
          "status ?j2 = (case dto_status dto of None \<Rightarrow> status J | Some st \<Rightarrow> st)"
          "startedAt ?j2 = startedAt (stamp_started dto now (assign_job J dto))"
          using j1 by simp_all
        ultimately show ?thesis by blast
      qed
    qed
  qed
qed

lemma update_keeps_startedAt:
  assumes "jobs s jid = Some J" and "job_id J = jid" and "startedAt J = Some t"
  shows "map_option startedAt (jobs (snd (IngestionService_update jid dto A now s)) jid)
           = Some (Some t)"
  using update_outcome [OF assms(1), of dto A now] assms
  by (auto simp add: stamp_started_startedAt)

lemma after_webhook_running_jobs:
  "jobs after_webhook_running =
     [''j-1'' \<mapsto> \<lparr>job_id = ''j-1'', status = RUNNING, errorMessage = None, result = None,
                  config = Some [], startedAt = Some 400, completedAt = None,
                  documentId = Some ''d-1''\<rparr>]"
  by (simp add: after_webhook_running_def handleWebhook_def assign_job_def stamp_started_def
      stamp_completed_def enters_terminal_def terminal_status_def Let_def after_create_jobs
      running_dto_def)

lemma after_webhook_running_timers:
  "timers after_webhook_running = [(1000, FirstStep ''j-1'')]"
  by (simp add: after_webhook_running_def handleWebhook_def Let_def after_create_jobs
      after_create_timers)

text \<open>
  Claim C6: \<open>startedAt\<close> is assigned on at most one transition into \<open>RUNNING\<close> on every
  path that sets it; a later attempt leaves a start time that is set unchanged. The
  admin update and the webhook test \<^verbatim>\<open>!job.startedAt\<close> first
  (\<open>webhook_keeps_startedAt\<close>, \<open>update_keeps_startedAt\<close>); the simulated processor assigns
  unconditionally. Job \<open>j-1\<close>, reported \<open>RUNNING\<close> by the webhook at time 400, has its
  start time overwritten with 1000 when the first timer fires.
\<close>

theorem simulated_step_overwrites_startedAt:
  "map_option startedAt (jobs after_webhook_running ''j-1'') = Some (Some 400)
   \<and> map_option startedAt (jobs (fire 1000 after_webhook_running) ''j-1'') = Some (Some 1000)"
  by (simp add: after_webhook_running_jobs after_webhook_running_timers fire_def
      first_callback_def Let_def)

section \<open>Terminal states\<close>

text \<open>
  What a cancel comes to for a stored job: it raises and writes nothing, or it has
  saved the job as \<open>CANCELLED\<close> (and then the status update of a document may still
  raise).
\<close>

lemma cancel_outcome:
  assumes "jobs s jid = Some J" and "job_id J = jid"
  shows "(isl (fst (IngestionService_cancel jid A now s))
            \<and> snd (IngestionService_cancel jid A now s) = s)
       \<or> (status J \<noteq> COMPLETED \<and> status J \<noteq> FAILED
            \<and> jobs (snd (IngestionService_cancel jid A now s))
                = (jobs s)(jid \<mapsto> J\<lparr>status := CANCELLED, completedAt := Some now\<rparr>))"
proof (cases "IngestionService_findOne jid A s")
  case (Inl e)
  then show ?thesis by (simp add: IngestionService_cancel_def)
next
  case (Inr job)
  then have job: "job = J\<lparr>documentId := None\<rparr>"
    using assms(1)
    by (auto simp add: IngestionService_findOne_def split: sum.splits if_splits)
  show ?thesis
  proof (cases "status J = COMPLETED \<or> status J = FAILED")
    case True
    then show ?thesis using Inr job by (auto simp add: IngestionService_cancel_def)
  next
    case live: False
    show ?thesis
    proof (cases "foreign_job A (job_owner J s)")
      case (Inl e)
      then show ?thesis
        using Inr job live assms(1) by (simp add: IngestionService_cancel_def)
    next
      case g: (Inr denied)
      show ?thesis
      proof (cases denied)
        case True
        then show ?thesis
          using Inr job live g assms(1) by (simp add: IngestionService_cancel_def)
      next
        case False
        let ?job = "J\<lparr>documentId := None, status := CANCELLED, completedAt := Some now\<rparr>"
        let ?P = "DocumentsService_updateStatus None UPLOADED A (save_job ?job s)"
        have u: "IngestionService_cancel jid A now s =
                   (if isl (fst ?P) then (Inl (projl (fst ?P)), snd ?P)
                    else (Inr ?job, snd ?P))"
          using Inr job live g False assms(1)
          by (simp add: IngestionService_cancel_def Let_def split_beta sum.case_eq_if)
        have "stored_job ?job s = J\<lparr>status := CANCELLED, completedAt := Some now\<rparr>"
          using assms by (simp add: stored_job_projected)
        then have "jobs (snd ?P) = (jobs s)(jid \<mapsto> J\<lparr>status := CANCELLED, completedAt := Some now\<rparr>)"
          using assms(2) by simp
        then have "jobs (snd (IngestionService_cancel jid A now s))
                     = (jobs s)(jid \<mapsto> J\<lparr>status := CANCELLED, completedAt := Some now\<rparr>)"
          using u by (simp split: if_splits)
        then show ?thesis using live by simp
      qed
    qed
  qed
qed

lemma cancel_terminal_status:
  assumes "jobs s jid = Some J" and "job_id J = jid" and "terminal_status (status J)"
  shows "map_option status (jobs (snd (IngestionService_cancel jid A now s)) jid)
           = Some (status J)"
  using cancel_outcome [OF assms(1,2), of A now] assms(1,3)
  by (auto simp add: terminal_status_def)

lemma cancel_finished_unchanged:
  assumes "jobs s jid = Some J" and "job_id J = jid"
    and "status J = COMPLETED \<or> status J = FAILED"
  shows "isl (fst (IngestionService_cancel jid A now s))"
    and "snd (IngestionService_cancel jid A now s) = s"
  using cancel_outcome [OF assms(1,2), of A now] assms(3) by auto

lemma webhook_status:
  assumes "jobs s jid = Some J" and "job_id J = jid"
  shows "map_option status (jobs (snd (handleWebhook jid dto now s)) jid) =
           Some (case dto_status dto of None \<Rightarrow> status J | Some st \<Rightarrow> st)"
  by (simp add: webhook_existing [OF assms])

lemma update_status:
  assumes "jobs s jid = Some J" and "job_id J = jid"
  shows "map_option status (jobs (snd (IngestionService_update jid dto A now s)) jid) =
           Some (if isl (fst (IngestionService_update jid dto A now s)) then status J
                 else (case dto_status dto of None \<Rightarrow> status J | Some st \<Rightarrow> st))"
  using update_outcome [OF assms(1), of dto A now] assms
  by auto

lemma update_failure_unchanged:
  assumes "jobs s jid = Some J"
    and "isl (fst (IngestionService_update jid dto A now s))"
  shows "snd (IngestionService_update jid dto A now s) = s"
  using update_outcome [OF assms(1), of dto A now] assms(2) by auto

lemma running_dto_status: "dto_status running_dto = Some RUNNING"
  by (simp add: running_dto_def)

lemma update_after_simulation:
  "isl (fst (IngestionService_update ''j-1'' running_dto admin_user 9000 after_simulation))
     = False"
  by (simp add: IngestionService_update_def IngestionService_findOne_def foreign_job_def
      enters_terminal_def terminal_status_def Let_def after_simulation_jobs running_dto_def
      admin_user_def)

text \<open>
  Claim C4, as stated: once a job is \<open>COMPLETED\<close>, \<open>FAILED\<close> or \<open>CANCELLED\<close>, no
  admin update, webhook callback, cancel or simulated advance changes its status. The
  webhook (like the admin update) merges the payload's status into the job without
  looking at the current one: reporting \<open>RUNNING\<close> for the completed job \<open>j-1\<close> makes
  it \<open>RUNNING\<close> again.
\<close>

theorem webhook_reopens_completed_job:
  "map_option status (jobs after_simulation ''j-1'') = Some COMPLETED
   \<and> map_option status
        (jobs (snd (handleWebhook ''j-1'' running_dto 9000 after_simulation)) ''j-1'')
     = Some RUNNING"
  by (simp add: webhook_status after_simulation_jobs running_dto_def)

text \<open>
  Claim C4, amended: for a job whose status is terminal, cancel never changes the
  status (a \<open>COMPLETED\<close> or \<open>FAILED\<close> job is rejected with the state untouched, a
  \<open>CANCELLED\<close> job stays \<open>CANCELLED\<close>); a webhook callback or a successful admin
  update leaves the status as it is when the payload names no status and sets it to the
  payload's status otherwise; an admin update that fails changes nothing. (The simulated
  advance is the subject of claim C5.)
\<close>

theorem terminal_job_status:
  assumes "jobs s jid = Some J" and "job_id J = jid" and "terminal_status (status J)"
  shows "map_option status (jobs (snd (IngestionService_cancel jid A now s)) jid)
           = Some (status J)
       \<and> (status J \<noteq> CANCELLED \<longrightarrow>
            isl (fst (IngestionService_cancel jid A now s))
            \<and> snd (IngestionService_cancel jid A now s) = s)
       \<and> map_option status (jobs (snd (handleWebhook jid dto now s)) jid)
           = Some (case dto_status dto of None \<Rightarrow> status J | Some st \<Rightarrow> st)
       \<and> map_option status (jobs (snd (IngestionService_update jid dto A now s)) jid)
           = Some (if isl (fst (IngestionService_update jid dto A now s)) then status J
                   else (case dto_status dto of None \<Rightarrow> status J | Some st \<Rightarrow> st))
       \<and> (isl (fst (IngestionService_update jid dto A now s)) \<longrightarrow>
            snd (IngestionService_update jid dto A now s) = s)"
proof -
  have "status J \<noteq> CANCELLED \<Longrightarrow> status J = COMPLETED \<or> status J = FAILED"
    using assms(3) by (simp add: terminal_status_def)
  then show ?thesis
    using cancel_terminal_status [OF assms] cancel_finished_unchanged [OF assms(1,2)]
      webhook_status [OF assms(1,2)] update_status [OF assms(1,2)]
      update_failure_unchanged [OF assms(1)]
    by blast
qed

theorem terminal_job_status_witness:
  "terminal_status COMPLETED
   \<and> map_option status
        (jobs (snd (IngestionService_cancel ''j-1'' admin_user 9000 after_simulation)) ''j-1'')
     = Some COMPLETED
   \<and> snd (IngestionService_cancel ''j-1'' admin_user 9000 after_simulation) = after_simulation
   \<and> map_option status
        (jobs (snd (handleWebhook ''j-1'' running_dto 9000 after_simulation)) ''j-1'')
     = Some RUNNING
   \<and> map_option status
        (jobs (snd (IngestionService_update ''j-1'' running_dto admin_user 9000 after_simulation))
           ''j-1'')
     = Some RUNNING"
  using terminal_job_status
    [of after_simulation "''j-1''"
        "\<lparr>job_id = ''j-1'', status = COMPLETED, errorMessage = None,
          result = Some canned_result, config = Some [], startedAt = Some 1000,
          completedAt = Some 6000, documentId = Some ''d-1''\<rparr>"
        admin_user 9000 running_dto]
  by (simp add: after_simulation_jobs terminal_status_def update_after_simulation
      running_dto_status)

section \<open>Creating a job for a document in processing\<close>

text \<open>
  Claim C7, as stated: creating a job for a document that is \<open>PROCESSING\<close> raises
  \<open>BadRequestException\<close> whoever asks. The document is fetched through
  \<^verbatim>\<open>DocumentsService.findOne\<close> first, so an actor who may not view it gets
  \<open>ForbiddenException\<close>: the viewer, who does not own \<open>d-1\<close>, does.
\<close>

theorem create_processing_by_stranger:
  "map_option document_status (documents after_create ''d-1'') = Some PROCESSING
   \<and> fst (IngestionService_create create_dto viewer_user ''j-2'' 10 after_create)
     = Inl ForbiddenException"
  by (simp add: IngestionService_create_def DocumentsService_findOne_def
      after_create_documents example_defs)

text \<open>
  Claim C7, amended: creating a job for a document that is \<open>PROCESSING\<close> raises
  \<open>BadRequestException\<close> for every administrator and \<open>ForbiddenException\<close> for
  every actor who is neither an administrator nor the document's owner; in both cases
  nothing is written. (The owner who is not an administrator is left out: what happens
  to the owner is the defect of claim C8.)
\<close>

theorem create_processing_rejected:
  assumes "documents s (dto_documentId dto) = Some D" and "document_status D = PROCESSING"
    and "role A = ADMIN \<or> uploadedById D \<noteq> Some (user_id A)"
  shows "IngestionService_create dto A newId now s =
           (if role A = ADMIN then Inl BadRequestException else Inl ForbiddenException, s)"
  using assms(1,2)
  by (simp add: IngestionService_create_def DocumentsService_findOne_def)

theorem create_processing_rejected_witness:
  "IngestionService_create create_dto admin_user ''j-2'' 10 after_create
     = (Inl BadRequestException, after_create)
   \<and> IngestionService_create create_dto viewer_user ''j-2'' 10 after_create
     = (Inl ForbiddenException, after_create)"
  using create_processing_rejected [of after_create create_dto
        "uploaded_document\<lparr>document_status := PROCESSING\<rparr>" admin_user "''j-2''" 10]
    create_processing_rejected [of after_create create_dto
        "uploaded_document\<lparr>document_status := PROCESSING\<rparr>" viewer_user "''j-2''" 10]
  by (simp add: after_create_documents example_defs)

section \<open>What an unknown id yields\<close>

text \<open>
  Claim C9, as stated: every operation on a resource by id checks existence before
  ownership or role, so an unknown id yields \<open>NotFoundException\<close> even for an actor
  who would be denied, in particular when a non-admin deletes an ingestion job or a user.
  Both deletions test the role before they touch the store: the editor gets
  \<open>ForbiddenException\<close> for ids that do not exist.
\<close>

theorem remove_unknown_by_editor:
  "jobs initial_state ''j-404'' = None
   \<and> fst (IngestionService_remove ''j-404'' editor_user initial_state) = Inl ForbiddenException
   \<and> users initial_state ''u-404'' = None
   \<and> fst (UsersService_remove ''u-404'' editor_user initial_state) = Inl ForbiddenException"
  by (simp add: IngestionService_remove_def UsersService_remove_def example_defs)

text \<open>
  Claim C9, amended: the operations that apply an ownership test (finding, updating
  and removing a document; creating a job for a document; finding, updating and
  cancelling a job) and the webhook check existence first, so an unknown id yields
  \<open>NotFoundException\<close> for every actor. The administrator-only operations (removing a
  job, setting a document's status, removing a user, changing a user's role or active
  flag) check the role first, and the two that forbid targeting oneself check that
  next: for an unknown id they raise \<open>ForbiddenException\<close> for a non-admin (or a
  self-targeting administrator) and \<open>NotFoundException\<close> otherwise.
\<close>

theorem unknown_id_checks:
  assumes "documents s i = None" and "jobs s i = None" and "users s i = None"
  shows "DocumentsService_findOne i A s = Inl NotFoundException
       \<and> fst (DocumentsService_update i ddto A s) = Inl NotFoundException
       \<and> fst (DocumentsService_remove i A s) = Inl NotFoundException
       \<and> fst (IngestionService_create \<lparr>dto_documentId = i, dto_config = c\<rparr> A newId now s)
           = Inl NotFoundException
       \<and> IngestionService_findOne i A s = Inl NotFoundException
       \<and> fst (IngestionService_update i jdto A now s) = Inl NotFoundException
       \<and> fst (IngestionService_cancel i A now s) = Inl NotFoundException
       \<and> fst (handleWebhook i jdto now s) = Inl NotFoundException
       \<and> fst (IngestionService_remove i A s)
           = (if role A = ADMIN then Inl NotFoundException else Inl ForbiddenException)
       \<and> fst (DocumentsService_updateStatus (Some i) st A s)
           = (if role A = ADMIN then Inl NotFoundException else Inl ForbiddenException)
       \<and> fst (UsersService_remove i A s)
           = (if role A = ADMIN \<and> user_id A \<noteq> i then Inl NotFoundException
              else Inl ForbiddenException)
       \<and> fst (UsersService_updateRole i r A s)
           = (if role A = ADMIN then Inl NotFoundException else Inl ForbiddenException)
       \<and> fst (UsersService_updateUserStatus i A s)
           = (if role A = ADMIN \<and> user_id A \<noteq> i then Inl NotFoundException
              else Inl ForbiddenException)"
proof -
  have d: "DocumentsService_findOne i A s = Inl NotFoundException"
    using assms(1) by (simp add: DocumentsService_findOne_def)
  have j: "IngestionService_findOne i A s = Inl NotFoundException"
    using assms(2) by (simp add: IngestionService_findOne_def)
  have "fst (DocumentsService_update i ddto A s) = Inl NotFoundException"
    and "fst (DocumentsService_remove i A s) = Inl NotFoundException"
    and "fst (DocumentsService_updateStatus (Some i) st A s)
           = (if role A = ADMIN then Inl NotFoundException else Inl ForbiddenException)"
    using assms(1)
    by (simp_all add: DocumentsService_update_def DocumentsService_remove_def
        DocumentsService_updateStatus_def documentsRepository_findOne_def)
  moreover have "fst (IngestionService_create \<lparr>dto_documentId = i, dto_config = c\<rparr> A newId now s)
           = Inl NotFoundException"
    using d by (simp add: IngestionService_create_def)
  moreover have "fst (IngestionService_update i jdto A now s) = Inl NotFoundException"
    and "fst (IngestionService_cancel i A now s) = Inl NotFoundException"
    using j by (simp_all add: IngestionService_update_def IngestionService_cancel_def)
  moreover have "fst (handleWebhook i jdto now s) = Inl NotFoundException"
    and "fst (IngestionService_remove i A s)
           = (if role A = ADMIN then Inl NotFoundException else Inl ForbiddenException)"
    using assms(2) by (simp_all add: handleWebhook_def IngestionService_remove_def)
  moreover have "fst (UsersService_remove i A s)
           = (if role A = ADMIN \<and> user_id A \<noteq> i then Inl NotFoundException
              else Inl ForbiddenException)"
    and "fst (UsersService_updateRole i r A s)
           = (if role A = ADMIN then Inl NotFoundException else Inl ForbiddenException)"
    and "fst (UsersService_updateUserStatus i A s)
           = (if role A = ADMIN \<and> user_id A \<noteq> i then Inl NotFoundException
              else Inl ForbiddenException)"
    using assms(3)
    by (simp_all add: UsersService_remove_def UsersService_updateRole_def
        UsersService_updateUserStatus_def)
  ultimately show ?thesis
    using d j by blast
qed

theorem unknown_id_checks_witness:
  "DocumentsService_findOne ''x-404'' editor_user initial_state = Inl NotFoundException
   \<and> fst (DocumentsService_remove ''x-404'' editor_user initial_state) = Inl NotFoundException
   \<and> IngestionService_findOne ''x-404'' editor_user initial_state = Inl NotFoundException
   \<and> fst (IngestionService_cancel ''x-404'' editor_user 0 initial_state) = Inl NotFoundException
   \<and> fst (handleWebhook ''x-404'' running_dto 0 initial_state) = Inl NotFoundException
   \<and> fst (IngestionService_remove ''x-404'' editor_user initial_state) = Inl ForbiddenException
   \<and> fst (UsersService_remove ''x-404'' editor_user initial_state) = Inl ForbiddenException
   \<and> fst (IngestionService_remove ''x-404'' admin_user initial_state) = Inl NotFoundException
   \<and> fst (UsersService_remove ''x-404'' admin_user initial_state) = Inl NotFoundException"
proof -
  have "documents initial_state ''x-404'' = None"
    by (simp add: documents_def initial_state_def uploaded_document_def)
  moreover have "jobs initial_state ''x-404'' = None" "users initial_state ''x-404'' = None"
    by (simp_all add: initial_state_def)
  ultimately show ?thesis
    using unknown_id_checks [of initial_state "''x-404''" editor_user _ _ _ 0 running_dto]
      unknown_id_checks [of initial_state "''x-404''" admin_user _ _ _ 0 running_dto]
    by (simp add: editor_user_def admin_user_def)
qed

section \<open>The webhook's footprint\<close>

text \<open>
  Claim C10: for an existing job and any payload, the webhook writes the job's row and
  nothing else; of the row, the key, the owning document and the configuration are as
  before. In particular every document keeps its status, also when the payload moves
  the job to a terminal state: the webhook does not cascade, unlike the admin update.
\<close>

theorem handleWebhook_touches_job_only:
  assumes "jobs s jobId = Some J" and "job_id J = jobId"
  shows "\<exists>J'. handleWebhook jobId dto now s = (Inr J', s\<lparr>jobs := (jobs s)(jobId \<mapsto> J')\<rparr>)
              \<and> job_id J' = job_id J \<and> documentId J' = documentId J \<and> config J' = config J
              \<and> documents (snd (handleWebhook jobId dto now s)) = documents s"
  by (simp add: webhook_existing [OF assms])

theorem handleWebhook_touches_job_only_witness:
  "documents (snd (handleWebhook ''j-1'' completed_dto 3000 after_create))
     = documents after_create
   \<and> map_option document_status
        (documents (snd (handleWebhook ''j-1'' completed_dto 3000 after_create)) ''d-1'')
     = Some PROCESSING
   \<and> map_option status
        (jobs (snd (handleWebhook ''j-1'' completed_dto 3000 after_create)) ''j-1'')
     = Some COMPLETED"
  using handleWebhook_touches_job_only [of after_create "''j-1''"
        "\<lparr>job_id = ''j-1'', status = PENDING, errorMessage = None, result = None,
          config = Some [], startedAt = None, completedAt = None,
          documentId = Some ''d-1''\<rparr>"
        completed_dto 3000]
    webhook_status [of after_create "''j-1''"
        "\<lparr>job_id = ''j-1'', status = PENDING, errorMessage = None, result = None,
          config = Some [], startedAt = None, completedAt = None,
          documentId = Some ''d-1''\<rparr>"
        completed_dto 3000]
  by (auto simp add: after_create_documents after_create_jobs completed_dto_def
      uploaded_document_def)

end
